theory Spec2Isabelle
  imports Main "HOL-Library.AList"
begin

section \<open>The declared topology of \<open>lib/cfninit-stack.ts\<close>\<close>

text \<open>
  The repository is one class, \<open>CfninitStack\<close>, whose constructor builds a tree of
  constructs under the stack: every \<open>new X(this, "Id", props)\<close> registers a child
  named \<open>Id\<close> in the stack, and later constructs receive earlier ones as object
  references. The embedding keeps that shape. The stack is a record holding its children
  in construction order; a reference to a construct is the identifier it was registered
  under; the constructor is a state-passing computation over the stack that fails when an
  identifier is registered twice. Values built by the library's static factories
  (\<open>Peer.anyIpv4()\<close>, \<open>Port.tcp(443)\<close>, \<open>Duration.minutes(5)\<close>, ...) are values of
  datatypes and records named after the factory.
\<close>

subsection \<open>Network\<close>

datatype SubnetType = PRIVATE_ISOLATED | PRIVATE_WITH_EGRESS | PUBLIC

record SubnetConfiguration =
  cidrMask :: nat
  name :: string
  subnetType :: SubnetType

datatype IpAddresses = IpAddresses_cidr string

record VpcProps =
  vpcName :: string
  ipAddresses :: IpAddresses
  maxAzs :: nat
  natGateways :: nat
  subnetConfiguration :: "SubnetConfiguration list"

subsection \<open>Security group\<close>

datatype Peer = Peer_ipv4 string | Peer_ipv6 string

text \<open>\<open>Peer.anyIpv4()\<close> is the library's name for the IPv4 peer \<open>0.0.0.0/0\<close>.\<close>

definition Peer_anyIpv4 :: Peer where
  "Peer_anyIpv4 = Peer_ipv4 ''0.0.0.0/0''"

datatype Protocol = TCP | UDP

record Port =
  protocol :: Protocol
  fromPort :: nat
  toPort :: nat

definition Port_tcp :: "nat \<Rightarrow> Port" where
  "Port_tcp p = \<lparr>protocol = TCP, fromPort = p, toPort = p\<rparr>"

record IngressRule =
  peer :: Peer
  connection :: Port
  description :: string

record SecurityGroup =
  securityGroupName :: string
  sg_vpc :: string
  allowAllOutbound :: bool
  ingressRules :: "IngressRule list"

subsection \<open>Identity\<close>

datatype Principal = ServicePrincipal string | CompositePrincipal "Principal list"

datatype ManagedPolicy = ManagedPolicy_fromAwsManagedPolicyName string

record PolicyStatement =
  ps_actions :: "string list"
  ps_resources :: "string list"

record PolicyDocument =
  statements :: "PolicyStatement list"

record RoleProps =
  assumedBy :: Principal
  managedPolicies :: "ManagedPolicy list"
  inlinePolicies :: "(string \<times> PolicyDocument) list"

record KeyPairProps =
  keyPairName :: string

subsection \<open>Compute pool\<close>

datatype InstanceType = InstanceType string

datatype AmazonLinuxGeneration = AMAZON_LINUX | AMAZON_LINUX_2 | AMAZON_LINUX_2022 | AMAZON_LINUX_2023

record AmazonLinuxImage =
  generation :: AmazonLinuxGeneration

record LaunchTemplateProps =
  instanceType :: InstanceType
  machineImage :: AmazonLinuxImage
  lt_securityGroup :: string
  lt_role :: string
  keyPair :: string

datatype InitServiceRestartHandle = InitServiceRestartHandle

record InitServiceOptions =
  serviceRestartHandle :: "InitServiceRestartHandle option"

datatype InitElement =
    InitPackage_yum string
  | InitCommand_shellCommand string
  | InitFile_fromAsset string string
  | InitService_enable string InitServiceOptions

datatype CloudFormationInit = CloudFormationInit_fromElements "InitElement list"

datatype TimeUnit = Seconds | Minutes | Hours

record Duration =
  amount :: nat
  unit :: TimeUnit

definition Duration_minutes :: "nat \<Rightarrow> Duration" where
  "Duration_minutes n = \<lparr>amount = n, unit = Minutes\<rparr>"

fun Duration_toSeconds :: "Duration \<Rightarrow> nat" where
  "Duration_toSeconds d =
     (case unit d of Seconds \<Rightarrow> amount d | Minutes \<Rightarrow> 60 * amount d | Hours \<Rightarrow> 3600 * amount d)"

record SignalsOptions =
  minSuccessPercentage :: "nat option"
  timeout :: "Duration option"

datatype Signals =
    Signals_waitForAll SignalsOptions
  | Signals_waitForMinCapacity SignalsOptions
  | Signals_waitForCount nat SignalsOptions

record SubnetSelection =
  sel_subnetType :: SubnetType

record AutoScalingGroupProps =
  asg_vpc :: string
  launchTemplate :: string
  vpcSubnets :: SubnetSelection
  init :: CloudFormationInit
  signals :: Signals

subsection \<open>Pipeline\<close>

datatype Artifact = Artifact string

datatype SecretValue = SecretValue_secretsManager string | SecretValue_unsafePlainText string

datatype RemovalPolicy = DESTROY | RETAIN | SNAPSHOT

record BucketProps =
  removalPolicy :: RemovalPolicy

datatype LinuxBuildImage = STANDARD_7_0 | AMAZON_LINUX_2_4 | AMAZON_LINUX_2_5

record BuildEnvironment =
  buildImage :: LinuxBuildImage

datatype json = JString string | JArray "json list" | JObject "(string \<times> json) list"

datatype BuildSpec = BuildSpec_fromObject json

record PipelineProjectProps =
  environment :: BuildEnvironment
  buildSpec :: BuildSpec

record ServerDeploymentGroupProps =
  autoScalingGroups :: "string list"

record GitHubSourceActionProps =
  gh_actionName :: string
  owner :: string
  repo :: string
  branch :: string
  oauthToken :: SecretValue
  gh_output :: Artifact

record CodeBuildActionProps =
  cb_actionName :: string
  project :: string
  cb_input :: Artifact
  cb_outputs :: "Artifact list"

record CodeDeployServerDeployActionProps =
  cd_actionName :: string
  cd_input :: Artifact
  deploymentGroup :: string

datatype Action =
    GitHubSourceAction GitHubSourceActionProps
  | CodeBuildAction CodeBuildActionProps
  | CodeDeployServerDeployAction CodeDeployServerDeployActionProps

record StageProps =
  stageName :: string
  actions :: "Action list"

record PipelineProps =
  pipelineName :: string
  pl_role :: string
  artifactBucket :: string
  stages :: "StageProps list"

subsection \<open>The construct tree\<close>

datatype Construct =
    CVpc VpcProps
  | CSecurityGroup SecurityGroup
  | CRole RoleProps
  | CKeyPair KeyPairProps
  | CLaunchTemplate LaunchTemplateProps
  | CAutoScalingGroup AutoScalingGroupProps
  | CBucket BucketProps
  | CPipelineProject PipelineProjectProps
  | CServerDeploymentGroup ServerDeploymentGroupProps
  | CPipeline PipelineProps

record StackProps =
  stackName :: "string option"
  stackDescription :: "string option"

record Stack =
  stackId :: string
  stackProps :: StackProps
  children :: "(string \<times> Construct) list"

datatype error = DuplicateConstructId string | NotASecurityGroup string

type_synonym App = "string list"

text \<open>\<open>super(scope, id, props)\<close>: the stack registers itself in its scope.\<close>

definition Stack_super :: "App \<Rightarrow> string \<Rightarrow> StackProps \<Rightarrow> error + (App \<times> Stack)" where
  "Stack_super scope sid props =
     (if sid \<in> set scope then Inl (DuplicateConstructId sid)
      else Inr (scope @ [sid], \<lparr>stackId = sid, stackProps = props, children = []\<rparr>))"

text \<open>\<open>new X(this, cid, props)\<close>: registers the construct and yields the reference to it.\<close>

definition newConstruct :: "string \<Rightarrow> Construct \<Rightarrow> Stack \<Rightarrow> error + (string \<times> Stack)" where
  "newConstruct cid c this =
     (if cid \<in> set (map fst (children this)) then Inl (DuplicateConstructId cid)
      else Inr (cid, this\<lparr>children := children this @ [(cid, c)]\<rparr>))"

definition findChild :: "Stack \<Rightarrow> string \<Rightarrow> Construct option" where
  "findChild this cid = map_of (children this) cid"

text \<open>\<open>sg.addIngressRule(peer, port, description)\<close> mutates the security group.\<close>

definition addIngressRule :: "string \<Rightarrow> Peer \<Rightarrow> Port \<Rightarrow> string \<Rightarrow> Stack \<Rightarrow> error + (unit \<times> Stack)" where
  "addIngressRule sg p c d this =
     (case findChild this sg of
        Some (CSecurityGroup g) \<Rightarrow>
          Inr ((), this\<lparr>children :=
                 AList.update sg
                   (CSecurityGroup (g\<lparr>ingressRules :=
                      ingressRules g @ [\<lparr>peer = p, connection = c, description = d\<rparr>]\<rparr>))
                   (children this)\<rparr>)
      | _ \<Rightarrow> Inl (NotASecurityGroup sg))"

definition andThen ::
  "(Stack \<Rightarrow> error + ('a \<times> Stack)) \<Rightarrow> ('a \<Rightarrow> Stack \<Rightarrow> error + ('b \<times> Stack)) \<Rightarrow>
   Stack \<Rightarrow> error + ('b \<times> Stack)" where
  "andThen m f this = (case m this of Inl e \<Rightarrow> Inl e | Inr (x, this') \<Rightarrow> f x this')"

definition finished :: "Stack \<Rightarrow> error + (unit \<times> Stack)" where
  "finished this = Inr ((), this)"

subsection \<open>The constructor\<close>

definition CfninitStack_buildSpec :: json where
  "CfninitStack_buildSpec =
     JObject
       [(''version'', JString ''0.2''),
        (''phases'', JObject
           [(''install'', JObject
               [(''runtime-versions'', JObject
                   [(''nodejs'', JString ''20.x''),
                    (''php'', JString ''8.3'')]),
                (''commands'', JArray
                   [JString ''npm install'',
                    JString ''curl -sS https://getcomposer.org/installer | php'',
                    JString ''php composer.phar install --no-dev --optimize-autoloader''])]),
            (''build'', JObject
               [(''commands'', JArray [JString ''npm run build''])])]),
        (''artifacts'', JObject
           [(''base-directory'', JString ''./''),
            (''files'', JArray [JString ''**/*''])])]"

text \<open>
  The constructor body, in the order in which JavaScript evaluates it: the arguments of a
  \<open>new\<close> expression are evaluated before the construct itself is registered, so
  \<open>Role\<close> and \<open>CfnInitKeyPair\<close> precede \<open>LaunchTemplate\<close>, which precedes
  \<open>AutoScalingGroup\<close>, and the pipeline's role, bucket, build project and deployment
  group precede \<open>Pipeline\<close>.
\<close>

definition CfninitStack_body :: "Stack \<Rightarrow> error + (unit \<times> Stack)" where
  "CfninitStack_body =
     andThen (newConstruct ''VPC'' (CVpc
       \<lparr>vpcName = ''cfninit-vpc'',
        ipAddresses = IpAddresses_cidr ''10.0.0.0/16'',
        maxAzs = 1,
        natGateways = 1,
        subnetConfiguration =
          [\<lparr>cidrMask = 24, name = ''Public'', subnetType = PUBLIC\<rparr>]\<rparr>)) (\<lambda>vpc.
     andThen (newConstruct ''SecurityGroup'' (CSecurityGroup
       \<lparr>securityGroupName = ''cfninit-sg'',
        sg_vpc = vpc,
        allowAllOutbound = True,
        ingressRules = []\<rparr>)) (\<lambda>securityGroup.
     andThen (addIngressRule securityGroup Peer_anyIpv4 (Port_tcp 443) ''allow https access'') (\<lambda>_.
     andThen (addIngressRule securityGroup Peer_anyIpv4 (Port_tcp 80) ''allow http access'') (\<lambda>_.
     andThen (addIngressRule securityGroup (Peer_ipv4 ''0.0.0.0/0'') (Port_tcp 22) ''allow ssh access'') (\<lambda>_.
     andThen (newConstruct ''Role'' (CRole
       \<lparr>assumedBy = ServicePrincipal ''ec2.amazonaws.com'',
        managedPolicies =
          [ManagedPolicy_fromAwsManagedPolicyName ''AmazonSSMManagedInstanceCore''],
        inlinePolicies = []\<rparr>)) (\<lambda>role.
     andThen (newConstruct ''CfnInitKeyPair'' (CKeyPair
       \<lparr>keyPairName = ''CfnInitKeyPair''\<rparr>)) (\<lambda>cfnInitKeyPair.
     andThen (newConstruct ''LaunchTemplate'' (CLaunchTemplate
       \<lparr>instanceType = InstanceType ''t2.micro'',
        machineImage = \<lparr>generation = AMAZON_LINUX_2023\<rparr>,
        lt_securityGroup = securityGroup,
        lt_role = role,
        keyPair = cfnInitKeyPair\<rparr>)) (\<lambda>launchTemplate'.
     andThen (newConstruct ''AutoScalingGroup'' (CAutoScalingGroup
       \<lparr>asg_vpc = vpc,
        launchTemplate = launchTemplate',
        vpcSubnets = \<lparr>sel_subnetType = PUBLIC\<rparr>,
        init = CloudFormationInit_fromElements
          [InitPackage_yum ''nginx'',
           InitCommand_shellCommand
             ''sudo yum install php php-fpm php-xml php-mbstring php-zip php-bcmath php-tokenizer ruby wget sqlite -y'',
           InitFile_fromAsset ''/etc/nginx/conf.d/laravel.conf'' ''cfninit/laravel.conf'',
           InitService_enable ''nginx''
             \<lparr>serviceRestartHandle = Some InitServiceRestartHandle\<rparr>],
        signals = Signals_waitForCount 1
          \<lparr>minSuccessPercentage = Some 80,
           timeout = Some (Duration_minutes 5)\<rparr>\<rparr>)) (\<lambda>autoScalingGroup.
     (let sourceArtifact = Artifact ''SourceArtifact'';
          buildArtifact = Artifact ''BuildArtifact'' in
     andThen (newConstruct ''PipelineRole'' (CRole
       \<lparr>assumedBy = CompositePrincipal
          [ServicePrincipal ''codebuild.amazonaws.com'',
           ServicePrincipal ''codepipeline.amazonaws.com''],
        managedPolicies = [],
        inlinePolicies =
          [(''CdkDeployPermissions'',
            \<lparr>statements =
               [\<lparr>ps_actions = [''sts:AssumeRole''],
                 ps_resources = [''arn:aws:iam::*:role/cdk-*'']\<rparr>]\<rparr>)]\<rparr>)) (\<lambda>pipelineRole.
     andThen (newConstruct ''ArtifactBucket'' (CBucket
       \<lparr>removalPolicy = DESTROY\<rparr>)) (\<lambda>artifactBucket'.
     andThen (newConstruct ''BuildProject'' (CPipelineProject
       \<lparr>environment = \<lparr>buildImage = AMAZON_LINUX_2_5\<rparr>,
        buildSpec = BuildSpec_fromObject CfninitStack_buildSpec\<rparr>)) (\<lambda>buildProject.
     andThen (newConstruct ''DeploymentGroup'' (CServerDeploymentGroup
       \<lparr>autoScalingGroups = [autoScalingGroup]\<rparr>)) (\<lambda>deploymentGroup'.
     andThen (newConstruct ''Pipeline'' (CPipeline
       \<lparr>pipelineName = ''Laravel-pipeline'',
        pl_role = pipelineRole,
        artifactBucket = artifactBucket',
        stages =
          [\<lparr>stageName = ''Source'',
            actions =
              [GitHubSourceAction
                 \<lparr>gh_actionName = ''Source'',
                  owner = ''RizaHKhan'',
                  repo = ''laravel-app-for-cdk'',
                  branch = ''master'',
                  oauthToken = SecretValue_secretsManager ''github-token'',
                  gh_output = sourceArtifact\<rparr>]\<rparr>,
           \<lparr>stageName = ''Build'',
            actions =
              [CodeBuildAction
                 \<lparr>cb_actionName = ''Build'',
                  project = buildProject,
                  cb_input = sourceArtifact,
                  cb_outputs = [buildArtifact]\<rparr>]\<rparr>,
           \<lparr>stageName = ''Deploy'',
            actions =
              [CodeDeployServerDeployAction
                 \<lparr>cd_actionName = ''DeployToEc2'',
                  cd_input = buildArtifact,
                  deploymentGroup = deploymentGroup'\<rparr>]\<rparr>]\<rparr>)) (\<lambda>_.
     finished)))))))))))))))"

text \<open>\<open>new CfninitStack(scope, id, props)\<close>.\<close>

definition CfninitStack :: "App \<Rightarrow> string \<Rightarrow> StackProps \<Rightarrow> error + (App \<times> Stack)" where
  "CfninitStack scope sid props =
     (case Stack_super scope sid props of
        Inl e \<Rightarrow> Inl e
      | Inr (scope', this) \<Rightarrow>
          (case CfninitStack_body this of
             Inl e \<Rightarrow> Inl e
           | Inr (_, this') \<Rightarrow> Inr (scope', this')))"

text \<open>\<open>bin/cfninit.ts\<close>: a fresh application holding one stack built with empty props.\<close>

definition main :: "error + (App \<times> Stack)" where
  "main = CfninitStack [] ''CfninitStack'' \<lparr>stackName = None, stackDescription = None\<rparr>"

subsection \<open>Reading the construct tree\<close>

fun asVpc :: "Construct \<Rightarrow> VpcProps option" where
  "asVpc (CVpc p) = Some p"
| "asVpc _ = None"

fun asSecurityGroup :: "Construct \<Rightarrow> SecurityGroup option" where
  "asSecurityGroup (CSecurityGroup g) = Some g"
| "asSecurityGroup _ = None"

fun asAutoScalingGroup :: "Construct \<Rightarrow> AutoScalingGroupProps option" where
  "asAutoScalingGroup (CAutoScalingGroup a) = Some a"
| "asAutoScalingGroup _ = None"

fun asBucket :: "Construct \<Rightarrow> BucketProps option" where
  "asBucket (CBucket b) = Some b"
| "asBucket _ = None"

fun asPipeline :: "Construct \<Rightarrow> PipelineProps option" where
  "asPipeline (CPipeline p) = Some p"
| "asPipeline _ = None"

text \<open>All children of one kind, in construction order.\<close>

definition childrenOf :: "(Construct \<Rightarrow> 'a option) \<Rightarrow> Stack \<Rightarrow> 'a list" where
  "childrenOf sel this = List.map_filter sel (map snd (children this))"

text \<open>The artifacts an action consumes and produces, and the secrets it carries.\<close>

fun Action_inputs :: "Action \<Rightarrow> Artifact list" where
  "Action_inputs (GitHubSourceAction a) = []"
| "Action_inputs (CodeBuildAction a) = [cb_input a]"
| "Action_inputs (CodeDeployServerDeployAction a) = [cd_input a]"

fun Action_outputs :: "Action \<Rightarrow> Artifact list" where
  "Action_outputs (GitHubSourceAction a) = [gh_output a]"
| "Action_outputs (CodeBuildAction a) = cb_outputs a"
| "Action_outputs (CodeDeployServerDeployAction a) = []"

fun Action_secrets :: "Action \<Rightarrow> SecretValue list" where
  "Action_secrets (GitHubSourceAction a) = [oauthToken a]"
| "Action_secrets (CodeBuildAction a) = []"
| "Action_secrets (CodeDeployServerDeployAction a) = []"

definition Stack_secrets :: "Stack \<Rightarrow> SecretValue list" where
  "Stack_secrets this =
     concat (map Action_secrets
       (concat (map actions (concat (map stages (childrenOf asPipeline this))))))"

fun Signals_options :: "Signals \<Rightarrow> SignalsOptions" where
  "Signals_options (Signals_waitForAll opts) = opts"
| "Signals_options (Signals_waitForMinCapacity opts) = opts"
| "Signals_options (Signals_waitForCount n opts) = opts"

text \<open>
  The number of success signals a configuration names outright; \<open>waitForAll\<close> and
  \<open>waitForMinCapacity\<close> name none and leave it to the capacity of the pool.
\<close>

fun Signals_count :: "Signals \<Rightarrow> nat option" where
  "Signals_count (Signals_waitForAll opts) = None"
| "Signals_count (Signals_waitForMinCapacity opts) = None"
| "Signals_count (Signals_waitForCount n opts) = Some n"

subsection \<open>The bootstrap recipe as the library binds it\<close>









section \<open>Properties\<close>

lemmas CfninitStack_defs =
  CfninitStack_def CfninitStack_body_def Stack_super_def
  newConstruct_def addIngressRule_def findChild_def andThen_def finished_def Let_def

lemma CfninitStack_succeeds:
  "sid \<notin> set scope \<Longrightarrow> \<exists>st. CfninitStack scope sid props = Inr (scope @ [sid], st)"
  by (simp add: CfninitStack_defs)

lemma CfninitStack_fails:
  "sid \<in> set scope \<Longrightarrow> CfninitStack scope sid props = Inl (DuplicateConstructId sid)"
  by (simp add: CfninitStack_defs)

lemma main_succeeds: "\<exists>st. main = Inr ([''CfninitStack''], st)"
  by (simp add: main_def CfninitStack_defs)

lemma CfninitStack_children_order:
  assumes "CfninitStack scope sid props = Inr (scope', st)"
  shows "map fst (children st) =
    [''VPC'', ''SecurityGroup'', ''Role'', ''CfnInitKeyPair'', ''LaunchTemplate'',
     ''AutoScalingGroup'', ''PipelineRole'', ''ArtifactBucket'', ''BuildProject'',
     ''DeploymentGroup'', ''Pipeline'']"
  using assms by (auto simp: CfninitStack_defs split: if_splits)

subsection \<open>Pipeline\<close>

text \<open>
  Claim C1. The pipeline built by \<open>CfninitStack\<close> is the only pipeline of the stack and
  has exactly three stages, named Source, Build and Deploy in that order. The Deploy stage
  has a single action, a CodeDeploy server deployment whose deployment group lists exactly
  one auto-scaling group: the reference \<open>AutoScalingGroup\<close>, which resolves to the only
  auto-scaling group of the stack, registered before the deployment group.
\<close>

theorem pipeline_stages_and_deploy_target:
  assumes "CfninitStack scope sid props = Inr (scope', st)"
  shows "\<exists>p s1 s2 s3 d dg asg.
    childrenOf asPipeline st = [p] \<and>
    stages p = [s1, s2, s3] \<and>
    map stageName (stages p) = [''Source'', ''Build'', ''Deploy''] \<and>
    actions s3 = [CodeDeployServerDeployAction d] \<and>
    findChild st (deploymentGroup d) = Some (CServerDeploymentGroup dg) \<and>
    autoScalingGroups dg = [''AutoScalingGroup''] \<and>
    findChild st ''AutoScalingGroup'' = Some (CAutoScalingGroup asg) \<and>
    childrenOf asAutoScalingGroup st = [asg] \<and>
    takeWhile (\<lambda>c. c \<noteq> deploymentGroup d) (map fst (children st)) =
      [''VPC'', ''SecurityGroup'', ''Role'', ''CfnInitKeyPair'', ''LaunchTemplate'',
       ''AutoScalingGroup'', ''PipelineRole'', ''ArtifactBucket'', ''BuildProject'']"
  using assms
  by (auto simp: CfninitStack_defs childrenOf_def List.map_filter_simps split: if_splits)

theorem pipeline_stages_and_deploy_target_witness:
  "\<exists>scope' st p s1 s2 s3 d dg asg.
    CfninitStack [] ''CfninitStack'' \<lparr>stackName = None, stackDescription = None\<rparr> =
      Inr (scope', st) \<and>
    childrenOf asPipeline st = [p] \<and>
    stages p = [s1, s2, s3] \<and>
    map stageName (stages p) = [''Source'', ''Build'', ''Deploy''] \<and>
    actions s3 = [CodeDeployServerDeployAction d] \<and>
    findChild st (deploymentGroup d) = Some (CServerDeploymentGroup dg) \<and>
    autoScalingGroups dg = [''AutoScalingGroup''] \<and>
    findChild st ''AutoScalingGroup'' = Some (CAutoScalingGroup asg) \<and>
    childrenOf asAutoScalingGroup st = [asg] \<and>
    takeWhile (\<lambda>c. c \<noteq> deploymentGroup d) (map fst (children st)) =
      [''VPC'', ''SecurityGroup'', ''Role'', ''CfnInitKeyPair'', ''LaunchTemplate'',
       ''AutoScalingGroup'', ''PipelineRole'', ''ArtifactBucket'', ''BuildProject'']"
proof -
  obtain st where built:
    "CfninitStack [] ''CfninitStack'' \<lparr>stackName = None, stackDescription = None\<rparr> =
       Inr ([''CfninitStack''], st)"
    using main_succeeds unfolding main_def by blast
  from pipeline_stages_and_deploy_target [OF built] built show ?thesis
    by (elim exE conjE) (intro exI conjI; assumption)
qed

text \<open>
  Claim C5. One artifact travels each hop of the pipeline. Every stage has one action; the
  Source action consumes nothing and produces \<open>SourceArtifact\<close>; the Build action consumes
  exactly that artifact and produces exactly \<open>BuildArtifact\<close>; the Deploy action consumes
  exactly that artifact and produces nothing. The stages come in the order Source, Build,
  Deploy.
\<close>

theorem artifact_flow:
  assumes "CfninitStack scope sid props = Inr (scope', st)"
  shows "\<exists>p.
    childrenOf asPipeline st = [p] \<and>
    map stageName (stages p) = [''Source'', ''Build'', ''Deploy''] \<and>
    map (\<lambda>s. map Action_inputs (actions s)) (stages p) =
      [[[]], [[Artifact ''SourceArtifact'']], [[Artifact ''BuildArtifact'']]] \<and>
    map (\<lambda>s. map Action_outputs (actions s)) (stages p) =
      [[[Artifact ''SourceArtifact'']], [[Artifact ''BuildArtifact'']], [[]]]"
  using assms
  by (auto simp: CfninitStack_defs childrenOf_def List.map_filter_simps split: if_splits)

theorem artifact_flow_witness:
  "\<exists>scope' st p.
    CfninitStack [] ''CfninitStack'' \<lparr>stackName = None, stackDescription = None\<rparr> =
      Inr (scope', st) \<and>
    childrenOf asPipeline st = [p] \<and>
    map stageName (stages p) = [''Source'', ''Build'', ''Deploy''] \<and>
    map (\<lambda>s. map Action_inputs (actions s)) (stages p) =
      [[[]], [[Artifact ''SourceArtifact'']], [[Artifact ''BuildArtifact'']]] \<and>
    map (\<lambda>s. map Action_outputs (actions s)) (stages p) =
      [[[Artifact ''SourceArtifact'']], [[Artifact ''BuildArtifact'']], [[]]]"
proof -
  obtain st where built:
    "CfninitStack [] ''CfninitStack'' \<lparr>stackName = None, stackDescription = None\<rparr> =
       Inr ([''CfninitStack''], st)"
    using main_succeeds unfolding main_def by blast
  from artifact_flow [OF built] built show ?thesis
    by (elim exE conjE) (intro exI conjI; assumption)
qed

text \<open>
  The only secret held anywhere in the stack is the OAuth token of the Source action, and
  it is a Secrets Manager reference by the name \<open>github-token\<close>.
\<close>

lemma declared_oauth_token:
  assumes "CfninitStack scope sid props = Inr (scope', st)"
  shows "Stack_secrets st = [SecretValue_secretsManager ''github-token'']"
  using assms
  by (auto simp: CfninitStack_defs Stack_secrets_def childrenOf_def List.map_filter_simps
           split: if_splits)

text \<open>
  The stack has one bucket, the one the pipeline names as its artifact bucket, and it is
  declared with the removal policy \<open>DESTROY\<close>.
\<close>

lemma declared_artifact_bucket:
  assumes "CfninitStack scope sid props = Inr (scope', st)"
  shows "\<exists>p b.
    childrenOf asPipeline st = [p] \<and>
    childrenOf asBucket st = [b] \<and>
    findChild st (artifactBucket p) = Some (CBucket b) \<and>
    removalPolicy b = DESTROY"
  using assms
  by (auto simp: CfninitStack_defs childrenOf_def List.map_filter_simps split: if_splits)

subsection \<open>Network and access control\<close>

text \<open>
  Claim C2. The stack has one security group. It has exactly three ingress rules, for the
  TCP ports 443, 80 and 22 (each rule a single port), every one of them from the IPv4
  range \<open>0.0.0.0/0\<close>, and it allows all outbound traffic.
\<close>

theorem security_group_ingress:
  assumes "CfninitStack scope sid props = Inr (scope', st)"
  shows "\<exists>g.
    childrenOf asSecurityGroup st = [g] \<and>
    map connection (ingressRules g) = [Port_tcp 443, Port_tcp 80, Port_tcp 22] \<and>
    map (\<lambda>r. fromPort (connection r)) (ingressRules g) = [443, 80, 22] \<and>
    map (\<lambda>r. toPort (connection r)) (ingressRules g) = [443, 80, 22] \<and>
    map peer (ingressRules g) =
      [Peer_ipv4 ''0.0.0.0/0'', Peer_ipv4 ''0.0.0.0/0'', Peer_ipv4 ''0.0.0.0/0''] \<and>
    allowAllOutbound g"
  using assms
  by (auto simp: CfninitStack_defs childrenOf_def List.map_filter_simps
                 Peer_anyIpv4_def Port_tcp_def
           split: if_splits)

theorem security_group_ingress_witness:
  "\<exists>scope' st g.
    CfninitStack [] ''CfninitStack'' \<lparr>stackName = None, stackDescription = None\<rparr> =
      Inr (scope', st) \<and>
    childrenOf asSecurityGroup st = [g] \<and>
    map connection (ingressRules g) = [Port_tcp 443, Port_tcp 80, Port_tcp 22] \<and>
    map (\<lambda>r. fromPort (connection r)) (ingressRules g) = [443, 80, 22] \<and>
    map (\<lambda>r. toPort (connection r)) (ingressRules g) = [443, 80, 22] \<and>
    map peer (ingressRules g) =
      [Peer_ipv4 ''0.0.0.0/0'', Peer_ipv4 ''0.0.0.0/0'', Peer_ipv4 ''0.0.0.0/0''] \<and>
    allowAllOutbound g"
proof -
  obtain st where built:
    "CfninitStack [] ''CfninitStack'' \<lparr>stackName = None, stackDescription = None\<rparr> =
       Inr ([''CfninitStack''], st)"
    using main_succeeds unfolding main_def by blast
  from security_group_ingress [OF built] built show ?thesis
    by (elim exE conjE) (intro exI conjI; assumption)
qed

text \<open>
  Claim C4. The stack declares exactly one VPC. Its subnet configuration has exactly one
  entry, of the public type; it spans at most one availability zone and asks for one NAT
  gateway.
\<close>

theorem vpc_shape:
  assumes "CfninitStack scope sid props = Inr (scope', st)"
  shows "\<exists>v c.
    childrenOf asVpc st = [v] \<and>
    subnetConfiguration v = [c] \<and>
    subnetType c = PUBLIC \<and>
    maxAzs v = 1 \<and>
    natGateways v = 1"
  using assms
  by (auto simp: CfninitStack_defs childrenOf_def List.map_filter_simps split: if_splits)

theorem vpc_shape_witness:
  "\<exists>scope' st v c.
    CfninitStack [] ''CfninitStack'' \<lparr>stackName = None, stackDescription = None\<rparr> =
      Inr (scope', st) \<and>
    childrenOf asVpc st = [v] \<and>
    subnetConfiguration v = [c] \<and>
    subnetType c = PUBLIC \<and>
    maxAzs v = 1 \<and>
    natGateways v = 1"
proof -
  obtain st where built:
    "CfninitStack [] ''CfninitStack'' \<lparr>stackName = None, stackDescription = None\<rparr> =
       Inr ([''CfninitStack''], st)"
    using main_succeeds unfolding main_def by blast
  from vpc_shape [OF built] built show ?thesis
    by (elim exE conjE) (intro exI conjI; assumption)
qed

subsection \<open>Compute pool\<close>

text \<open>
  The stack has one auto-scaling group. Its signal configuration declares a minimum
  success percentage of 80 and a timeout of five minutes (300 seconds).
\<close>

lemma declared_signal_options:
  assumes "CfninitStack scope sid props = Inr (scope', st)"
  shows "\<exists>a.
    childrenOf asAutoScalingGroup st = [a] \<and>
    minSuccessPercentage (Signals_options (signals a)) = Some 80 \<and>
    timeout (Signals_options (signals a)) = Some (Duration_minutes 5) \<and>
    map_option Duration_toSeconds (timeout (Signals_options (signals a))) = Some 300"
  using assms
  by (auto simp: CfninitStack_defs childrenOf_def List.map_filter_simps Duration_minutes_def
           split: if_splits)

text \<open>
  Claim C9. The signal configuration of the auto-scaling group is \<open>waitForCount\<close> with
  the explicit count 1, carrying the 80 percent minimum: the count is a literal of the
  declaration, not derived from the capacity of the pool as \<open>waitForAll\<close> and
  \<open>waitForMinCapacity\<close> would have it.
\<close>

theorem signals_count_is_one:
  assumes "CfninitStack scope sid props = Inr (scope', st)"
  shows "\<exists>a opts.
    childrenOf asAutoScalingGroup st = [a] \<and>
    signals a = Signals_waitForCount 1 opts \<and>
    Signals_count (signals a) = Some 1 \<and>
    minSuccessPercentage opts = Some 80"
  using assms
  by (auto simp: CfninitStack_defs childrenOf_def List.map_filter_simps split: if_splits)

theorem signals_count_is_one_witness:
  "\<exists>scope' st a opts.
    CfninitStack [] ''CfninitStack'' \<lparr>stackName = None, stackDescription = None\<rparr> =
      Inr (scope', st) \<and>
    childrenOf asAutoScalingGroup st = [a] \<and>
    signals a = Signals_waitForCount 1 opts \<and>
    Signals_count (signals a) = Some 1 \<and>
    minSuccessPercentage opts = Some 80"
proof -
  obtain st where built:
    "CfninitStack [] ''CfninitStack'' \<lparr>stackName = None, stackDescription = None\<rparr> =
       Inr ([''CfninitStack''], st)"
    using main_succeeds unfolding main_def by blast
  from signals_count_is_one [OF built] built show ?thesis
    by (elim exE conjE) (intro exI conjI; assumption)
qed




end
